theory Spec2Isabelle
  imports Main "HOL-Library.Sublist"
begin

section \<open>Python values\<close>

text \<open>
  The pipeline works on loosely typed data: what \<^verbatim>\<open>json.loads\<close> and the search
  collaborator hand over. A value is \<^verbatim>\<open>None\<close>, a boolean, a number, a string, a list or
  a dict with string keys. A dict is an association list in insertion order (Python dicts
  keep it, and the code iterates over \<^verbatim>\<open>trusted_sources.items()\<close> in that order).
  Numbers are integers: every branch of the code treats a float like an integer (it is
  not a string, not a list, not a dict, and it is falsy exactly when it is zero).
  Text is a \<open>char list\<close>; the character classes below are Python's on ASCII, and text
  outside ASCII is outside this model.
\<close>

datatype pyval =
    PNone
  | PBool bool
  | PInt int
  | PStr string
  | PList "pyval list"
  | PDict "(string \<times> pyval) list"

type_synonym pydict = "(string \<times> pyval) list"

text \<open>The exceptions the code can meet. \<open>OtherError\<close> stands for any other exception.\<close>

datatype exn = TypeError | AttributeError | KeyError | ValueError | JSONDecodeError | OtherError

text \<open>Truthiness, as \<^verbatim>\<open>x or y\<close> tests it.\<close>

fun truthy :: "pyval \<Rightarrow> bool" where
  "truthy PNone = False"
| "truthy (PBool b) = b"
| "truthy (PInt i) = (i \<noteq> 0)"
| "truthy (PStr s) = (s \<noteq> [])"
| "truthy (PList xs) = (xs \<noteq> [])"
| "truthy (PDict d) = (d \<noteq> [])"

text \<open>\<^verbatim>\<open>d.get(k, default)\<close>\<close>

definition py_get :: "pydict \<Rightarrow> string \<Rightarrow> pyval \<Rightarrow> pyval" where
  "py_get d k dflt = (case map_of d k of Some v \<Rightarrow> v | None \<Rightarrow> dflt)"

text \<open>\<^verbatim>\<open>d[k] = v\<close>: an existing key keeps its place, a new key goes to the end.\<close>

fun py_setitem :: "pydict \<Rightarrow> string \<Rightarrow> pyval \<Rightarrow> pydict" where
  "py_setitem [] k v = [(k, v)]"
| "py_setitem ((k', v') # d) k v =
     (if k' = k then (k, v) # d else (k', v') # py_setitem d k v)"

definition is_seq :: "pyval \<Rightarrow> bool" where
  "is_seq v = (case v of PList xs \<Rightarrow> True | _ \<Rightarrow> False)"

section \<open>The Result Parser\<close>

text \<open>
  \<^verbatim>\<open>
  def safe_parse_response(response):
      if isinstance(response, str):
          try:
              response = json.loads(response)
          except json.JSONDecodeError:
              return []
      if isinstance(response, list):
          return response
      if isinstance(response, dict):
          return response.get("results", [])
      return []
  \<close>
  \<^verbatim>\<open>json.loads\<close> is the library's decoder, a parameter here: it returns the decoded
  value or raises. Only \<^verbatim>\<open>JSONDecodeError\<close> is caught; any other exception of the decoder
  escapes.
\<close>

definition dispatch_shape :: "pyval \<Rightarrow> pyval" where
  "dispatch_shape response =
     (case response of
        PList xs \<Rightarrow> PList xs
      | PDict d \<Rightarrow> py_get d ''results'' (PList [])
      | _ \<Rightarrow> PList [])"

definition safe_parse_response :: "(string \<Rightarrow> exn + pyval) \<Rightarrow> pyval \<Rightarrow> exn + pyval" where
  "safe_parse_response json_loads response =
     (case response of
        PStr s \<Rightarrow>
          (case json_loads s of
             Inl e \<Rightarrow> (if e = JSONDecodeError then Inr (PList []) else Inl e)
           | Inr v \<Rightarrow> Inr (dispatch_shape v))
      | _ \<Rightarrow> Inr (dispatch_shape response))"

section \<open>Text primitives\<close>

text \<open>
  Python's character classes on ASCII: \<^verbatim>\<open>\d\<close>, \<^verbatim>\<open>\w\<close>, \<^verbatim>\<open>\s\<close> of \<^verbatim>\<open>re\<close> (also what
  \<^verbatim>\<open>str.split()\<close> and \<^verbatim>\<open>str.strip()\<close> take for whitespace: tab to carriage return, the
  four separators 28 to 31, and the space) and \<^verbatim>\<open>str.isprintable\<close> (32 to 126).
\<close>

definition ord :: "char \<Rightarrow> nat" where
  "ord c = of_char c"

definition is_digit :: "char \<Rightarrow> bool" where
  "is_digit c = (48 \<le> ord c \<and> ord c \<le> 57)"

definition is_alpha :: "char \<Rightarrow> bool" where
  "is_alpha c = ((65 \<le> ord c \<and> ord c \<le> 90) \<or> (97 \<le> ord c \<and> ord c \<le> 122))"

definition is_word :: "char \<Rightarrow> bool" where
  "is_word c = (is_digit c \<or> is_alpha c \<or> c = CHR ''_'')"

definition is_space :: "char \<Rightarrow> bool" where
  "is_space c = ((9 \<le> ord c \<and> ord c \<le> 13) \<or> (28 \<le> ord c \<and> ord c \<le> 32))"

definition is_printable :: "char \<Rightarrow> bool" where
  "is_printable c = (32 \<le> ord c \<and> ord c \<le> 126)"

text \<open>\<^verbatim>\<open>str.lower()\<close> on ASCII.\<close>

definition lower_char :: "char \<Rightarrow> char" where
  "lower_char c = (if 65 \<le> ord c \<and> ord c \<le> 90 then char_of (ord c + 32) else c)"

definition py_lower :: "string \<Rightarrow> string" where
  "py_lower s = map lower_char s"

text \<open>\<^verbatim>\<open>needle in hay\<close> for two strings: substring test.\<close>

fun str_contains :: "string \<Rightarrow> string \<Rightarrow> bool" where
  "str_contains needle [] = (needle = [])"
| "str_contains needle (c # cs) = (prefix needle (c # cs) \<or> str_contains needle cs)"

text \<open>
  \<^verbatim>\<open>s.replace(old, new)\<close> for a non-empty \<open>old\<close>: every occurrence, left to right,
  without overlap.
\<close>

fun py_replace :: "string \<Rightarrow> string \<Rightarrow> string \<Rightarrow> string" where
  "py_replace old new [] = []"
| "py_replace old new (c # cs) =
     (if old \<noteq> [] \<and> prefix old (c # cs)
      then new @ py_replace old new (drop (length old - 1) cs)
      else c # py_replace old new cs)"

text \<open>\<^verbatim>\<open>s.strip()\<close>, \<^verbatim>\<open>s.split()\<close> and \<^verbatim>\<open>" ".join(ws)\<close>.\<close>

definition py_strip :: "string \<Rightarrow> string" where
  "py_strip s = rev (dropWhile is_space (rev (dropWhile is_space s)))"

function py_split :: "string \<Rightarrow> string list" where
  "py_split [] = []"
| "py_split (c # cs) =
     (if is_space c then py_split cs
      else (c # takeWhile (\<lambda>x. \<not> is_space x) cs) # py_split (dropWhile (\<lambda>x. \<not> is_space x) cs))"
  by pat_completeness auto
termination
  by (relation "measure length") (auto simp: le_imp_less_Suc length_dropWhile_le)

fun py_join :: "string \<Rightarrow> string list \<Rightarrow> string" where
  "py_join sep [] = []"
| "py_join sep [w] = w"
| "py_join sep (w # ws) = w @ sep @ py_join sep ws"

text \<open>\<^verbatim>\<open>os.path.basename(p)\<close> (posixpath): what follows the last slash.\<close>

definition basename :: "string \<Rightarrow> string" where
  "basename p = rev (takeWhile (\<lambda>c. c \<noteq> CHR ''/'') (rev p))"

subsection \<open>Regular expressions\<close>

text \<open>
  The patterns of the code are sequences of single characters, character classes and
  greedy repetitions of a class. \<open>rmatch\<close> matches a pattern at the start of a text as
  \<^verbatim>\<open>re\<close> does, longest repetition first, backtracking to shorter ones, and returns the
  matched text (\<^verbatim>\<open>match.group(0)\<close>). \<open>More p n\<close> is \<open>n\<close> or more of \<open>p\<close>,
  \<open>Rep p lo hi\<close> is between \<open>lo\<close> and \<open>hi\<close>.
\<close>

datatype rx = Lit char | Cls "char \<Rightarrow> bool" | Rep "char \<Rightarrow> bool" nat nat | More "char \<Rightarrow> bool" nat

fun first_some :: "'a option list \<Rightarrow> 'a option" where
  "first_some [] = None"
| "first_some (None # xs) = first_some xs"
| "first_some (Some x # xs) = Some x"

fun rmatch :: "rx list \<Rightarrow> string \<Rightarrow> string option" where
  "rmatch [] s = Some []"
| "rmatch (Lit c # rs) s =
     (case s of [] \<Rightarrow> None
      | x # xs \<Rightarrow> if x = c then map_option ((#) x) (rmatch rs xs) else None)"
| "rmatch (Cls p # rs) s =
     (case s of [] \<Rightarrow> None
      | x # xs \<Rightarrow> if p x then map_option ((#) x) (rmatch rs xs) else None)"
| "rmatch (Rep p lo hi # rs) s =
     first_some (map (\<lambda>n. map_option ((@) (take n s)) (rmatch rs (drop n s)))
       (rev [lo ..< Suc (min hi (length (takeWhile p s)))]))"
| "rmatch (More p lo # rs) s =
     first_some (map (\<lambda>n. map_option ((@) (take n s)) (rmatch rs (drop n s)))
       (rev [lo ..< Suc (length (takeWhile p s))]))"

text \<open>\<^verbatim>\<open>re.search(pattern, text)\<close>: the leftmost match.\<close>

fun re_search :: "rx list \<Rightarrow> string \<Rightarrow> string option" where
  "re_search pat [] = rmatch pat []"
| "re_search pat (c # cs) =
     (case rmatch pat (c # cs) of Some m \<Rightarrow> Some m | None \<Rightarrow> re_search pat cs)"

text \<open>
  \<^verbatim>\<open>re.sub(pattern, repl, text)\<close> for a pattern that matches no empty text (the three
  patterns of \<open>clean_text\<close> each need a character): every match, left to right, is
  replaced and the scan goes on after it.
\<close>

fun re_sub :: "rx list \<Rightarrow> string \<Rightarrow> string \<Rightarrow> string" where
  "re_sub pat repl [] = []"
| "re_sub pat repl (c # cs) =
     (case rmatch pat (c # cs) of
        None \<Rightarrow> c # re_sub pat repl cs
      | Some m \<Rightarrow> repl @ re_sub pat repl (drop (length m - 1) cs))"

section \<open>Libraries and collaborators\<close>

text \<open>
  What the code calls and does not own is a parameter of the model, gathered in one
  record: the JSON decoder, \<^verbatim>\<open>html.unescape\<close>, \<^verbatim>\<open>unicodedata.normalize("NFKD", _)\<close>,
  \<^verbatim>\<open>urlparse(_).netloc\<close> (which raises \<^verbatim>\<open>ValueError\<close> on some texts), the entities of
  the spaCy pipeline as (text, label) pairs, the date of \<^verbatim>\<open>datetime.today()\<close> as
  (year, month, day), the language model (the \<^verbatim>\<open>content\<close> of the response to a prompt,
  or an exception) and the text that an f-string gives for a value that is not a string.
\<close>

record world =
  json_loads :: "string \<Rightarrow> exn + pyval"
  html_unescape :: "string \<Rightarrow> string"
  nfkd :: "string \<Rightarrow> string"
  urlparse_netloc :: "string \<Rightarrow> exn + string"
  nlp_ents :: "string \<Rightarrow> (string \<times> string) list"
  today :: "nat \<times> nat \<times> nat"
  llm_invoke :: "string \<Rightarrow> exn + string"
  py_repr :: "pyval \<Rightarrow> string"

text \<open>A list comprehension or loop over calls that may raise: the first exception ends it.\<close>

fun map_exn :: "('a \<Rightarrow> exn + 'b) \<Rightarrow> 'a list \<Rightarrow> exn + 'b list" where
  "map_exn f [] = Inr []"
| "map_exn f (x # xs) =
     (case f x of
        Inl e \<Rightarrow> Inl e
      | Inr y \<Rightarrow> (case map_exn f xs of Inl e \<Rightarrow> Inl e | Inr ys \<Rightarrow> Inr (y # ys)))"

section \<open>The Reference Enricher\<close>

text \<open>
  \<^verbatim>\<open>
  trusted_sources = {"TNFD": ["tnfd.global"], "IPCC": ["ipcc.ch"], "Swiss Re": ["swissre.com"]}

  def enrich_articles_with_research_references(articles):
      enriched = []
      for article in articles:
          references = []
          for org, domains in trusted_sources.items():
              if any(domain in article["url"] for domain in domains):
                  references.append(org)
          article["research_references"] = references if references else ["None"]
          enriched.append(article)
      return enriched
  \<close>
\<close>

definition trusted_sources :: "(string \<times> string list) list" where
  "trusted_sources =
     [(''TNFD'', [''tnfd.global'']), (''IPCC'', [''ipcc.ch'']), (''Swiss Re'', [''swissre.com''])]"

text \<open>
  \<^verbatim>\<open>domain in x\<close>: a substring test on a string, membership in a list, a key test on a
  dict, \<^verbatim>\<open>TypeError\<close> on anything else.
\<close>

definition py_in :: "string \<Rightarrow> pyval \<Rightarrow> exn + bool" where
  "py_in needle x =
     (case x of
        PStr s \<Rightarrow> Inr (str_contains needle s)
      | PList xs \<Rightarrow> Inr (PStr needle \<in> set xs)
      | PDict d \<Rightarrow> Inr (needle \<in> set (map fst d))
      | _ \<Rightarrow> Inl TypeError)"

text \<open>
  \<^verbatim>\<open>any(domain in article["url"] for domain in domains)\<close>: \<^verbatim>\<open>article["url"]\<close> is read
  for each domain and raises \<^verbatim>\<open>KeyError\<close> when the key is missing.
\<close>

fun any_domain_in :: "pydict \<Rightarrow> string list \<Rightarrow> exn + bool" where
  "any_domain_in article [] = Inr False"
| "any_domain_in article (domain # domains) =
     (case map_of article ''url'' of
        None \<Rightarrow> Inl KeyError
      | Some u \<Rightarrow>
          (case py_in domain u of
             Inl e \<Rightarrow> Inl e
           | Inr hit \<Rightarrow> if hit then Inr True else any_domain_in article domains))"

fun collect_refs :: "pydict \<Rightarrow> (string \<times> string list) list \<Rightarrow> exn + string list" where
  "collect_refs article [] = Inr []"
| "collect_refs article ((org, domains) # rest) =
     (case any_domain_in article domains of
        Inl e \<Rightarrow> Inl e
      | Inr hit \<Rightarrow>
          (case collect_refs article rest of
             Inl e \<Rightarrow> Inl e
           | Inr refs \<Rightarrow> Inr (if hit then org # refs else refs)))"

definition add_research_references :: "pydict \<Rightarrow> exn + pydict" where
  "add_research_references article =
     (case collect_refs article trusted_sources of
        Inl e \<Rightarrow> Inl e
      | Inr references \<Rightarrow>
          Inr (py_setitem article ''research_references''
                 (PList (map PStr (if references \<noteq> [] then references else [''None''])))))"

definition enrich_articles_with_research_references :: "pydict list \<Rightarrow> exn + pydict list" where
  "enrich_articles_with_research_references articles = map_exn add_research_references articles"

section \<open>The Text Normalizer\<close>

text \<open>
  \<^verbatim>\<open>
  def clean_text(text):
      if not isinstance(text, str):
          return ""
      text = html.unescape(text)
      text = re.sub(r'<[^>]+>', ' ', text)
      text = re.sub(r'http\S+', '', text)
      text = unicodedata.normalize("NFKD", text)
      text = ''.join(ch for ch in text if ch.isprintable())
      return re.sub(r'\s+', ' ', text).strip()
  \<close>
\<close>

definition pat_tag :: "rx list" where
  "pat_tag = [Lit CHR ''<'', More (\<lambda>c. c \<noteq> CHR ''>'') 1, Lit CHR ''>'']"

definition pat_url :: "rx list" where
  "pat_url = [Lit CHR ''h'', Lit CHR ''t'', Lit CHR ''t'', Lit CHR ''p'', More (\<lambda>c. \<not> is_space c) 1]"

definition pat_ws :: "rx list" where
  "pat_ws = [More is_space 1]"

definition clean_text :: "world \<Rightarrow> pyval \<Rightarrow> string" where
  "clean_text W text =
     (case text of
        PStr s \<Rightarrow>
          (let t1 = html_unescape W s;
               t2 = re_sub pat_tag '' '' t1;
               t3 = re_sub pat_url [] t2;
               t4 = nfkd W t3;
               t5 = filter is_printable t4
           in py_strip (re_sub pat_ws '' '' t5))
      | _ \<Rightarrow> [])"

section \<open>The Field Extractors\<close>

text \<open>
  \<^verbatim>\<open>
  def extract_domain_as_source(url):
      return urlparse(url).netloc.replace("www.", "")
  \<close>
  On a value that is not a string \<^verbatim>\<open>urlparse\<close> tries to decode it (\<^verbatim>\<open>AttributeError\<close>)
  or, when it is falsy, answers in bytes, on which \<^verbatim>\<open>replace\<close> with string arguments
  is a \<^verbatim>\<open>TypeError\<close>.
\<close>

definition extract_domain_as_source :: "world \<Rightarrow> pyval \<Rightarrow> exn + string" where
  "extract_domain_as_source W url =
     (case url of
        PStr u \<Rightarrow>
          (case urlparse_netloc W u of
             Inl e \<Rightarrow> Inl e
           | Inr netloc \<Rightarrow> Inr (py_replace ''www.'' [] netloc))
      | _ \<Rightarrow> Inl (if truthy url then AttributeError else TypeError))"

text \<open>
  \<^verbatim>\<open>
  def extract_location(text):
      doc = nlp(text)
      locations = [ent.text for ent in doc.ents if ent.label_ in ["GPE", "LOC"]]
      return Counter(locations).most_common(1)[0][0] if locations else "Unknown Location"
  \<close>
  \<^verbatim>\<open>most_common(1)\<close> is the first entry, in order of first occurrence, with the highest
  count.
\<close>

definition extract_location :: "world \<Rightarrow> string \<Rightarrow> string" where
  "extract_location W text =
     (let locations = map fst (filter (\<lambda>ent. snd ent = ''GPE'' \<or> snd ent = ''LOC'') (nlp_ents W text))
      in case locations of
           [] \<Rightarrow> ''Unknown Location''
         | x # xs \<Rightarrow>
             foldl (\<lambda>best y. if count_list locations best < count_list locations y then y else best) x xs)"

text \<open>
  \<^verbatim>\<open>
  def categorize_article(text):
      text_lower = text.lower()
      categories = {"Climate Risk": ["climate change"], "Insurance Exposures": ["insured loss"],
                    "InsurTech": ["insurtech"]}
      for category, keywords in categories.items():
          if any(k in text_lower for k in keywords):
              return category
      return "Uncategorized"
  \<close>
\<close>

definition categories :: "(string \<times> string list) list" where
  "categories =
     [(''Climate Risk'', [''climate change'']), (''Insurance Exposures'', [''insured loss'']),
      (''InsurTech'', [''insurtech''])]"

definition categorize_article :: "string \<Rightarrow> string" where
  "categorize_article text =
     (let text_lower = py_lower text
      in case find (\<lambda>entry. list_ex (\<lambda>k. str_contains k text_lower) (snd entry)) categories of
           Some entry \<Rightarrow> fst entry
         | None \<Rightarrow> ''Uncategorized'')"

subsection \<open>Dates\<close>

text \<open>
  \<^verbatim>\<open>datetime.strptime(s, "%Y-%m-%d")\<close> matches the text against
  \<^verbatim>\<open>(?P<Y>\d\d\d\d)-(?P<m>1[0-2]|0[1-9]|[1-9])-(?P<d>3[0-1]|[1-2]\d|0[1-9]|[1-9]| [1-9])\<close>
  from its start, raises \<^verbatim>\<open>ValueError\<close> when this fails or leaves text over, and again
  when the numbers are no date of the calendar. \<open>month_alts\<close> and \<open>day_alts\<close> list the
  ways the month and day groups match, in the order of their alternatives, each with the
  text left.
\<close>

definition digit_val :: "char \<Rightarrow> nat" where
  "digit_val c = ord c - 48"

definition month_alts :: "string \<Rightarrow> (nat \<times> string) list" where
  "month_alts s =
     (case s of
        [] \<Rightarrow> []
      | a # t \<Rightarrow>
          (case t of
             [] \<Rightarrow> []
           | b # r \<Rightarrow>
               (if a = CHR ''1'' \<and> (b = CHR ''0'' \<or> b = CHR ''1'' \<or> b = CHR ''2'')
                then [(10 + digit_val b, r)] else []) @
               (if a = CHR ''0'' \<and> is_digit b \<and> b \<noteq> CHR ''0'' then [(digit_val b, r)] else [])) @
          (if is_digit a \<and> a \<noteq> CHR ''0'' then [(digit_val a, t)] else []))"

definition day_alts :: "string \<Rightarrow> (nat \<times> string) list" where
  "day_alts s =
     (case s of
        [] \<Rightarrow> []
      | a # t \<Rightarrow>
          (case t of
             [] \<Rightarrow> []
           | b # r \<Rightarrow>
               (if a = CHR ''3'' \<and> (b = CHR ''0'' \<or> b = CHR ''1'')
                then [(30 + digit_val b, r)] else []) @
               (if (a = CHR ''1'' \<or> a = CHR ''2'') \<and> is_digit b
                then [(10 * digit_val a + digit_val b, r)] else []) @
               (if a = CHR ''0'' \<and> is_digit b \<and> b \<noteq> CHR ''0'' then [(digit_val b, r)] else [])) @
          (if is_digit a \<and> a \<noteq> CHR ''0'' then [(digit_val a, t)] else []) @
          (case t of
             [] \<Rightarrow> []
           | b # r \<Rightarrow>
               (if a = CHR '' '' \<and> is_digit b \<and> b \<noteq> CHR ''0'' then [(digit_val b, r)] else [])))"

definition leap_year :: "nat \<Rightarrow> bool" where
  "leap_year y = ((y mod 4 = 0 \<and> y mod 100 \<noteq> 0) \<or> y mod 400 = 0)"

definition days_in_month :: "nat \<Rightarrow> nat \<Rightarrow> nat" where
  "days_in_month y m =
     (if m = 2 then (if leap_year y then 29 else 28)
      else if m = 4 \<or> m = 6 \<or> m = 9 \<or> m = 11 then 30 else 31)"

definition valid_date :: "nat \<Rightarrow> nat \<Rightarrow> nat \<Rightarrow> bool" where
  "valid_date y m d = (1 \<le> y \<and> 1 \<le> m \<and> m \<le> 12 \<and> 1 \<le> d \<and> d \<le> days_in_month y m)"

definition strptime_ymd :: "string \<Rightarrow> exn + (nat \<times> nat \<times> nat)" where
  "strptime_ymd s =
     (if 5 \<le> length s \<and> list_all is_digit (take 4 s) \<and> s ! 4 = CHR ''-''
      then
        (case find (\<lambda>alt. case snd alt of [] \<Rightarrow> False
                                | c # r \<Rightarrow> c = CHR ''-'' \<and> day_alts r \<noteq> [])
                (month_alts (drop 5 s)) of
           None \<Rightarrow> Inl ValueError
         | Some alt \<Rightarrow>
             (case day_alts (tl (snd alt)) of
                [] \<Rightarrow> Inl ValueError
              | dalt # _ \<Rightarrow>
                  (let y = 1000 * digit_val (s ! 0) + 100 * digit_val (s ! 1)
                           + 10 * digit_val (s ! 2) + digit_val (s ! 3);
                       m = fst alt; d = fst dalt
                   in if snd dalt \<noteq> [] then Inl ValueError
                      else if valid_date y m d then Inr (y, m, d)
                      else Inl ValueError)))
      else Inl ValueError)"

text \<open>\<^verbatim>\<open>strftime("%Y-%m-%d")\<close> of a date whose year has four digits.\<close>

definition digit_char :: "nat \<Rightarrow> char" where
  "digit_char n = char_of (48 + n mod 10)"

definition strftime_ymd :: "nat \<times> nat \<times> nat \<Rightarrow> string" where
  "strftime_ymd date =
     (case date of (y, m, d) \<Rightarrow>
        [digit_char (y div 1000), digit_char (y div 100), digit_char (y div 10), digit_char y,
         CHR ''-'', digit_char (m div 10), digit_char m,
         CHR ''-'', digit_char (d div 10), digit_char d])"

text \<open>
  \<^verbatim>\<open>
  def extract_best_date(url, title, content):
      patterns = [r'(20\d{2})[-/](\d{2})[-/](\d{2})', r'(\d{1,2} \w+ 20\d{2})', r'(\w+ \d{1,2}, 20\d{2})']
      for text in [url, title, content]:
          for pattern in patterns:
              match = re.search(pattern, text)
              if match:
                  try:
                      return datetime.strptime(match.group(0), "%Y-%m-%d").strftime("%Y-%m-%d")
                  except:
                      continue
      return datetime.today().strftime("%Y-%m-%d")
  \<close>
  \<^verbatim>\<open>re.search\<close> on a text that is not a string is a \<^verbatim>\<open>TypeError\<close>, outside the
  \<^verbatim>\<open>try\<close>.
\<close>

definition is_sep :: "char \<Rightarrow> bool" where
  "is_sep c = (c = CHR ''-'' \<or> c = CHR ''/'')"

definition pat_numeric :: "rx list" where
  "pat_numeric = [Lit CHR ''2'', Lit CHR ''0'', Rep is_digit 2 2, Cls is_sep, Rep is_digit 2 2,
                  Cls is_sep, Rep is_digit 2 2]"

definition pat_day_month :: "rx list" where
  "pat_day_month = [Rep is_digit 1 2, Lit CHR '' '', More is_word 1, Lit CHR '' '',
                    Lit CHR ''2'', Lit CHR ''0'', Rep is_digit 2 2]"

definition pat_month_day :: "rx list" where
  "pat_month_day = [More is_word 1, Lit CHR '' '', Rep is_digit 1 2, Lit CHR '','', Lit CHR '' '',
                    Lit CHR ''2'', Lit CHR ''0'', Rep is_digit 2 2]"

definition patterns :: "rx list list" where
  "patterns = [pat_numeric, pat_day_month, pat_month_day]"

text \<open>One turn of the inner loop: the date when the pattern matches and the match parses.\<close>

definition try_pattern :: "rx list \<Rightarrow> string \<Rightarrow> string option" where
  "try_pattern pat text =
     (case re_search pat text of
        None \<Rightarrow> None
      | Some m \<Rightarrow> (case strptime_ymd m of Inl e \<Rightarrow> None | Inr date \<Rightarrow> Some (strftime_ymd date)))"

fun scan_texts :: "pyval list \<Rightarrow> exn + string option" where
  "scan_texts [] = Inr None"
| "scan_texts (t # ts) =
     (case t of
        PStr text \<Rightarrow>
          (case first_some (map (\<lambda>pat. try_pattern pat text) patterns) of
             Some date \<Rightarrow> Inr (Some date)
           | None \<Rightarrow> scan_texts ts)
      | _ \<Rightarrow> Inl TypeError)"

definition extract_best_date :: "world \<Rightarrow> pyval \<Rightarrow> pyval \<Rightarrow> pyval \<Rightarrow> exn + string" where
  "extract_best_date W url title content =
     (case scan_texts [url, title, content] of
        Inl e \<Rightarrow> Inl e
      | Inr found \<Rightarrow> (case found of Some date \<Rightarrow> Inr date | None \<Rightarrow> Inr (strftime_ymd (today W))))"

section \<open>The Article Structurer\<close>

text \<open>
  \<^verbatim>\<open>
  def structure_articles(response):
      structured = []
      raw_results = safe_parse_response(response)
      print(f"Parsed {len(raw_results)} results.")
      for result in raw_results:
          url = result.get("url", "")
          title = result.get("title", "") or os.path.basename(url) or "No Title"
          source = result.get("source", "") or extract_domain_as_source(url)
          raw_content = result.get("content", "")
          full_content = clean_text(raw_content)
          summary_input = " ".join(full_content.split()[:800])
          date = extract_best_date(url, title, full_content)
          location = extract_location(full_content)
          category = categorize_article(full_content)
          structured.append({"title": title, "url": url, "source": source, "date": date,
                             "location": location, "category": category,
                             "summary_input": summary_input, "full_content": full_content})
      return structured
  \<close>
  \<^verbatim>\<open>len\<close> and the loop need something to count and walk: a list, or the characters of a
  string, or the keys of a dict. \<^verbatim>\<open>result.get\<close> exists on a dict only.
\<close>

definition iter_items :: "pyval \<Rightarrow> exn + pyval list" where
  "iter_items v =
     (case v of
        PList xs \<Rightarrow> Inr xs
      | PStr s \<Rightarrow> Inr (map (\<lambda>c. PStr [c]) s)
      | PDict d \<Rightarrow> Inr (map (\<lambda>kv. PStr (fst kv)) d)
      | _ \<Rightarrow> Inl TypeError)"

definition resolve_title :: "pydict \<Rightarrow> pyval \<Rightarrow> exn + pyval" where
  "resolve_title result url =
     (let t = py_get result ''title'' (PStr [])
      in if truthy t then Inr t
         else (case url of
                 PStr u \<Rightarrow> Inr (if basename u \<noteq> [] then PStr (basename u) else PStr ''No Title'')
               | _ \<Rightarrow> Inl TypeError))"

definition resolve_source :: "world \<Rightarrow> pydict \<Rightarrow> pyval \<Rightarrow> exn + pyval" where
  "resolve_source W result url =
     (let s = py_get result ''source'' (PStr [])
      in if truthy s then Inr s
         else (case extract_domain_as_source W url of Inl e \<Rightarrow> Inl e | Inr d \<Rightarrow> Inr (PStr d)))"

definition structure_result :: "world \<Rightarrow> pyval \<Rightarrow> exn + pydict" where
  "structure_result W result =
     (case result of
        PDict r \<Rightarrow>
          (let url = py_get r ''url'' (PStr [])
           in case resolve_title r url of
                Inl e \<Rightarrow> Inl e
              | Inr title \<Rightarrow>
                  (case resolve_source W r url of
                     Inl e \<Rightarrow> Inl e
                   | Inr source \<Rightarrow>
                       (let raw_content = py_get r ''content'' (PStr []);
                            full_content = clean_text W raw_content;
                            summary_input = py_join '' '' (take 800 (py_split full_content))
                        in case extract_best_date W url title (PStr full_content) of
                             Inl e \<Rightarrow> Inl e
                           | Inr date \<Rightarrow>
                               Inr [(''title'', title), (''url'', url), (''source'', source),
                                    (''date'', PStr date),
                                    (''location'', PStr (extract_location W full_content)),
                                    (''category'', PStr (categorize_article full_content)),
                                    (''summary_input'', PStr summary_input),
                                    (''full_content'', PStr full_content)])))
      | _ \<Rightarrow> Inl AttributeError)"

definition structure_articles :: "world \<Rightarrow> pyval \<Rightarrow> exn + pydict list" where
  "structure_articles W response =
     (case safe_parse_response (json_loads W) response of
        Inl e \<Rightarrow> Inl e
      | Inr raw_results \<Rightarrow>
          (case iter_items raw_results of
             Inl e \<Rightarrow> Inl e
           | Inr results \<Rightarrow> map_exn (structure_result W) results))"

section \<open>The LLM Enrichment Adapter\<close>

text \<open>
  The f-string of \<open>enrich_article_with_gpt_full\<close>: the fixed instructions, then six
  lines filled from the article. \<^verbatim>\<open>article.get("full_content", "")[:3000]\<close> is taken
  before the \<^verbatim>\<open>try\<close>; a slice exists on strings and lists.
\<close>

definition prompt_lines :: "string list" where
  \<open>prompt_lines = [
    ''You are an expert AI analyst at a global insurance firm. Your task is to analyze the provided article and clearly summarize it into an insightful, detailed, and highly structured summary explicitly crafted for risk analysts and decision-makers in the insurance industry.'',
    [],
    ''Explicitly include the following critical information in your summary clearly and concisely:'',
    [],
    ''1. **Main Issue/Event**: Clearly describe what specifically happened (e.g., wildfire, flood, policy change, regulation update, insurtech development).'',
    [],
    ''2. **Date and Location**: Clearly state when and where exactly the issue/event occurred or will occur.'',
    [],
    ''3. **Key Stakeholders**: Clearly mention any important companies, organizations, governments, or individuals involved or affected directly.'',
    [],
    ''4. **Impacts on Insurance Business**:'',
    ''   - Describe clearly any direct or indirect effects on the insurance and reinsurance industry.'',
    ''   - Clearly indicate potential changes in underwriting practices or risks to exposure.'',
    [],
    ''5. **Regulatory or Policy Changes**: Clearly state any significant policy, regulatory, or legislative developments described in the article.'',
    [],
    ''6. **Financial and Economic Implications**:'',
    ''   - Clearly summarize any explicitly mentioned or implied financial losses, premiums adjustments, claims impacts, or economic repercussions.'',
    [],
    ''7. **Technological Implications (if mentioned)**:'',
    ''   - Describe clearly how technology or innovation (e.g., AI, IoT, blockchain, etc.) is involved or impacted.'',
    [],
    ''8. **Environmental and Social Impact (if applicable)**:'',
    ''   - Clearly summarize any mentioned environmental or social consequences.'',
    [],
    ''9. **Immediate Action Recommendations**: Clearly and explicitly provide an actionable recommendation for insurance analysts to manage or monitor the described risk or situation.'',
    [],
    ''10. **Explicitly Suggested External References**:'',
    ''   - Clearly list relevant external references, explicitly providing both the name and the complete URL to official reports, trusted documents, or authoritative sources.'',
    [],
    ''Structure your output clearly and explicitly as this JSON format:'',
    [],
    ''{'',
    ''  "title": "...",'',
    ''  "url": "...",'',
    ''  "date": "...",'',
    ''  "source": "...",'',
    ''  "category": "...",'',
    ''  "location": "...",'',
    ''  "summary": "...",  # Clearly structured and comprehensive covering above points.'',
    ''  "references": ['',
    ''    {"name": "IPCC", "url": "https://ipcc.ch/report.pdf"},'',
    ''    {"name": "TNFD", "url": "https://tnfd.global/report.pdf"}'',
    ''  ],'',
    ''  "sentiment": "...",'',
    ''  "recommendation": "...",'',
    ''  "financial_impact": "..."'',
    ''}'',
    [],
    ''Clearly use only the provided structured article content explicitly below to craft your response:'',
    []]\<close>

definition newline :: char where
  "newline = CHR 0x0A"

definition prompt_instructions :: string where
  "prompt_instructions = newline # concat (map (\<lambda>l. l @ [newline]) prompt_lines)"

definition py_format :: "world \<Rightarrow> pyval \<Rightarrow> string" where
  "py_format W v = (case v of PStr s \<Rightarrow> s | _ \<Rightarrow> py_repr W v)"

definition py_slice3000 :: "pyval \<Rightarrow> exn + pyval" where
  "py_slice3000 v =
     (case v of
        PStr s \<Rightarrow> Inr (PStr (take 3000 s))
      | PList xs \<Rightarrow> Inr (PList (take 3000 xs))
      | _ \<Rightarrow> Inl TypeError)"

definition build_prompt :: "world \<Rightarrow> pydict \<Rightarrow> exn + string" where
  "build_prompt W article =
     (case py_slice3000 (py_get article ''full_content'' (PStr [])) of
        Inl e \<Rightarrow> Inl e
      | Inr content \<Rightarrow>
          Inr (prompt_instructions
               @ ''Title: '' @ py_format W (py_get article ''title'' (PStr [])) @ [newline]
               @ ''URL: '' @ py_format W (py_get article ''url'' (PStr [])) @ [newline]
               @ ''Date: '' @ py_format W (py_get article ''date'' (PStr [])) @ [newline]
               @ ''Source: '' @ py_format W (py_get article ''source'' (PStr [])) @ [newline]
               @ ''Summary: '' @ py_format W (py_get article ''summary_input'' (PStr [])) @ [newline]
               @ ''Content: '' @ py_format W content @ [newline]))"

text \<open>
  \<^verbatim>\<open>
      try:
          response = llm.invoke(prompt)
          return json.loads(response.content)
      except Exception as e:
          print("LangChain GPT Error:", e)
          return {
              "title": article.get("title", ""),
              "url": article.get("url", ""),
              "date": article.get("date", ""),
              "source": article.get("source", ""),
              "category": "Uncategorized",
              "summary": "GPT failed.",
              "references": [],
              "sentiment": "Unknown",
              "recommendation": "N/A",
              "financial_impact": "Not specified"
          }
  \<close>
\<close>

definition fallback_record :: "pydict \<Rightarrow> pydict" where
  "fallback_record article =
     [(''title'', py_get article ''title'' (PStr [])),
      (''url'', py_get article ''url'' (PStr [])),
      (''date'', py_get article ''date'' (PStr [])),
      (''source'', py_get article ''source'' (PStr [])),
      (''category'', PStr ''Uncategorized''),
      (''summary'', PStr ''GPT failed.''),
      (''references'', PList []),
      (''sentiment'', PStr ''Unknown''),
      (''recommendation'', PStr ''N/A''),
      (''financial_impact'', PStr ''Not specified'')]"

definition enrich_article_with_gpt_full :: "world \<Rightarrow> pydict \<Rightarrow> exn + pyval" where
  "enrich_article_with_gpt_full W article =
     (case build_prompt W article of
        Inl e \<Rightarrow> Inl e
      | Inr prompt \<Rightarrow>
          (case llm_invoke W prompt of
             Inl e \<Rightarrow> Inr (PDict (fallback_record article))
           | Inr content \<Rightarrow>
               (case json_loads W content of
                  Inl e \<Rightarrow> Inr (PDict (fallback_record article))
                | Inr v \<Rightarrow> Inr v)))"



section \<open>A concrete world\<close>

text \<open>
  To run the model on examples the parameters need values. \<open>json_loads_example\<close> stands
  for \<^verbatim>\<open>json.loads\<close> on the texts used below: it decodes \<^verbatim>\<open>[]\<close> and \<^verbatim>\<open>{}\<close> and takes
  anything else for malformed, as the decoder does with \<^verbatim>\<open>not valid json\<close>.
  \<open>netloc_basic\<close> is \<^verbatim>\<open>urlsplit\<close>'s network location for a URL without brackets and
  control characters: an optional scheme up to the first colon, then, after \<^verbatim>\<open>//\<close>,
  the text up to the first of \<^verbatim>\<open>/ ? #\<close>. The example texts hold no \<^verbatim>\<open>&\<close> and are
  ASCII, where \<^verbatim>\<open>html.unescape\<close> and NFKD normalisation change nothing. The example
  language model always raises.
\<close>

definition json_loads_example :: "string \<Rightarrow> exn + pyval" where
  "json_loads_example s =
     (if s = ''[]'' then Inr (PList []) else if s = ''{}'' then Inr (PDict [])
      else Inl JSONDecodeError)"

definition is_scheme_char :: "char \<Rightarrow> bool" where
  "is_scheme_char c = (is_alpha c \<or> is_digit c \<or> c = CHR ''+'' \<or> c = CHR ''-'' \<or> c = CHR ''.'')"

definition netloc_basic :: "string \<Rightarrow> exn + string" where
  "netloc_basic url =
     (let head = takeWhile (\<lambda>c. c \<noteq> CHR '':'') url;
          rest = (if head \<noteq> [] \<and> length head < length url \<and> is_alpha (hd head)
                     \<and> list_all is_scheme_char head
                  then drop (Suc (length head)) url else url)
      in if take 2 rest = ''//''
         then Inr (takeWhile (\<lambda>c. c \<noteq> CHR ''/'' \<and> c \<noteq> CHR ''?'' \<and> c \<noteq> CHR ''#'') (drop 2 rest))
         else Inr [])"

definition example_world :: world where
  "example_world =
     \<lparr> json_loads = json_loads_example,
       html_unescape = (\<lambda>s. s),
       nfkd = (\<lambda>s. s),
       urlparse_netloc = netloc_basic,
       nlp_ents = (\<lambda>text. []),
       today = (2026, 11, 3),
       llm_invoke = (\<lambda>prompt. Inl OtherError),
       py_repr = (\<lambda>v. []) \<rparr>"

section \<open>Predicates and examples for the properties\<close>

text \<open>
  A StructuredArticle of the data model: the eight fields of \<open>structure_articles\<close> are
  present and not \<^verbatim>\<open>None\<close>; the URL and the five computed fields are strings.
\<close>

definition is_str :: "pyval \<Rightarrow> bool" where
  "is_str v = (case v of PStr s \<Rightarrow> True | _ \<Rightarrow> False)"

definition structured_fields :: "string list" where
  "structured_fields =
     [''title'', ''url'', ''source'', ''date'', ''location'', ''category'', ''summary_input'',
      ''full_content'']"

definition field_populated :: "pydict \<Rightarrow> string \<Rightarrow> bool" where
  "field_populated a k = (case map_of a k of None \<Rightarrow> False | Some v \<Rightarrow> v \<noteq> PNone)"

definition is_structured :: "pydict \<Rightarrow> bool" where
  "is_structured a =
     (list_all (field_populated a) structured_fields
      \<and> list_all (\<lambda>k. is_str (py_get a k PNone))
           [''url'', ''date'', ''location'', ''category'', ''summary_input'', ''full_content''])"

text \<open>The keys of the JSON object that the prompt asks the language model for.\<close>

definition schema_keys :: "string list" where
  "schema_keys =
     [''title'', ''url'', ''date'', ''source'', ''category'', ''location'', ''summary'',
      ''references'', ''sentiment'', ''recommendation'', ''financial_impact'']"

definition conforms_schema :: "pyval \<Rightarrow> bool" where
  "conforms_schema v =
     (case v of PDict d \<Rightarrow> list_all (\<lambda>k. k \<in> set (map fst d)) schema_keys | _ \<Rightarrow> False)"

definition example_article :: pydict where
  "example_article =
     [(''title'', PStr ''Flood Risk Update''),
      (''url'', PStr ''https://swissre.com/report''),
      (''source'', PStr ''swissre.com''),
      (''date'', PStr ''2024-05-01''),
      (''location'', PStr ''Germany''),
      (''category'', PStr ''Insurance Exposures''),
      (''summary_input'', PStr ''A flood in Germany caused insured losses.''),
      (''full_content'', PStr ''A flood in Germany caused insured losses.''),
      (''research_references'', PList [PStr ''Swiss Re''])]"

text \<open>A world whose language model answers every prompt with the same text.\<close>

definition answering_world :: "string \<Rightarrow> world" where
  "answering_world text = example_world \<lparr> llm_invoke := (\<lambda>prompt. Inr text) \<rparr>"

text \<open>
  A raw result whose fields, where present, have the types the structurer relies on: it
  is a mapping, its URL is a string, its title is a string or falsy, and without an
  explicit source the network location of the URL can be taken.
\<close>

definition result_fields_ok :: "world \<Rightarrow> pyval \<Rightarrow> bool" where
  "result_fields_ok W result =
     (case result of
        PDict r \<Rightarrow>
          (case py_get r ''url'' (PStr []) of
             PStr u \<Rightarrow>
               (\<not> truthy (py_get r ''title'' (PStr [])) \<or> is_str (py_get r ''title'' (PStr [])))
               \<and> (truthy (py_get r ''source'' (PStr []))
                    \<or> (case urlparse_netloc W u of Inl e \<Rightarrow> False | Inr n \<Rightarrow> True))
           | _ \<Rightarrow> False)
      | _ \<Rightarrow> False)"

text \<open>The first end-to-end scenario of the specification.\<close>

definition example_response :: pyval where
  "example_response =
     PDict [(''results'',
       PList [PDict [(''url'', PStr ''https://swissre.com/report''),
                     (''title'', PStr ''Flood Risk Update''),
                     (''content'', PStr ''A flood in Germany on 2024-05-01 caused insured losses.'')]])]"

text \<open>
  Where the patterns of \<open>clean_text\<close> match: a tag starts at a \<^verbatim>\<open><\<close> that is followed
  by a character other than \<^verbatim>\<open>>\<close> and, later, by a \<^verbatim>\<open>>\<close>; a URL starts at \<^verbatim>\<open>http\<close>
  followed by a character that is not whitespace. A text is squeezed when its only
  whitespace is single spaces.
\<close>

definition tag_at :: "string \<Rightarrow> bool" where
  "tag_at s =
     (case s of
        [] \<Rightarrow> False
      | c # r \<Rightarrow> c = CHR ''<'' \<and> r \<noteq> [] \<and> hd r \<noteq> CHR ''>'' \<and> CHR ''>'' \<in> set r)"

definition url_at :: "string \<Rightarrow> bool" where
  "url_at s =
     (take 4 s = ''http'' \<and> (case drop 4 s of [] \<Rightarrow> False | d # r \<Rightarrow> \<not> is_space d))"

fun squeezed :: "string \<Rightarrow> bool" where
  "squeezed [] = True"
| "squeezed (c # cs) =
     (if is_space c then c = CHR '' '' \<and> (cs = [] \<or> \<not> is_space (hd cs)) \<and> squeezed cs
      else squeezed cs)"

text \<open>A text broken by a tab inside \<^verbatim>\<open>http\<close>: it holds no tag, no entity and no URL.\<close>

definition broken_url_text :: string where
  "broken_url_text =
     [CHR ''h'', CHR ''t'', CHR 0x09, CHR ''t'', CHR ''p'', CHR '':'', CHR ''/'', CHR ''/'',
      CHR ''a'', CHR ''.'', CHR ''b'']"

section \<open>Loops over calls that may raise\<close>

lemma map_exn_Inr:
  assumes "\<And>x. x \<in> set xs \<Longrightarrow> \<exists>y. f x = Inr y"
  shows "\<exists>ys. map_exn f xs = Inr ys \<and> length ys = length xs
              \<and> (\<forall>i<length xs. f (xs ! i) = Inr (ys ! i))"
  using assms
proof (induction xs)
  case Nil
  then show ?case by simp
next
  case (Cons x xs)
  from Cons.prems obtain y where y: "f x = Inr y" by auto
  from Cons obtain ys where ys: "map_exn f xs = Inr ys" "length ys = length xs"
    "\<forall>i<length xs. f (xs ! i) = Inr (ys ! i)" by auto
  have "\<forall>i<length (x # xs). f ((x # xs) ! i) = Inr ((y # ys) ! i)"
    using y ys(3) by (auto simp: nth_Cons split: nat.splits)
  with y ys show ?case by simp
qed

lemma map_exn_Inr_D:
  "map_exn f xs = Inr ys \<Longrightarrow> length ys = length xs \<and> (\<forall>i<length xs. f (xs ! i) = Inr (ys ! i))"
proof (induction xs arbitrary: ys)
  case Nil
  then show ?case by simp
next
  case (Cons x xs)
  then show ?case
    by (auto simp: nth_Cons split: sum.splits nat.splits)
qed

lemma map_exn_set:
  "map_exn f xs = Inr ys \<Longrightarrow> \<forall>y\<in>set ys. \<exists>x\<in>set xs. f x = Inr y"
proof (induction xs arbitrary: ys)
  case Nil
  then show ?case by simp
next
  case (Cons x xs)
  then show ?case
    by (auto split: sum.splits)
qed

section \<open>Properties of the Result Parser\<close>

text \<open>
  C3 (counterexample). The claim says that parse returns a sequence for every response.
  A mapping whose \<^verbatim>\<open>results\<close> entry is the number 5 comes back as that number, which is
  no sequence.
\<close>

theorem parse_results_not_sequence:
  "safe_parse_response json_loads_example (PDict [(''results'', PInt 5)]) = Inr (PInt 5)
   \<and> \<not> is_seq (PInt 5)"
  by (simp add: safe_parse_response_def dispatch_shape_def py_get_def is_seq_def)

text \<open>
  C3 (amended). When the decoder raises nothing but \<^verbatim>\<open>JSONDecodeError\<close>, parse never
  raises: a list is returned as it is, a mapping yields the value under \<^verbatim>\<open>results\<close>
  (the empty list if absent), a string is decoded and then dispatched by the decoded
  shape, and a string that fails to decode or any other value yields the empty list. The
  result is a list except when it is the \<^verbatim>\<open>results\<close> value of a mapping and that
  value is itself no list.
\<close>

theorem parse_total_by_shape:
  assumes decoder: "\<And>s e. jl s = Inl e \<Longrightarrow> e = JSONDecodeError"
  shows "\<exists>v. safe_parse_response jl response = Inr v
           \<and> (\<forall>xs. response = PList xs \<longrightarrow> v = PList xs)
           \<and> (\<forall>d. response = PDict d \<longrightarrow>
                  v = (case map_of d ''results'' of Some r \<Rightarrow> r | None \<Rightarrow> PList []))
           \<and> (\<forall>s e. response = PStr s \<and> jl s = Inl e \<longrightarrow> v = PList [])
           \<and> (\<forall>s xs. response = PStr s \<and> jl s = Inr (PList xs) \<longrightarrow> v = PList xs)
           \<and> (\<forall>s d. response = PStr s \<and> jl s = Inr (PDict d) \<longrightarrow>
                  v = (case map_of d ''results'' of Some r \<Rightarrow> r | None \<Rightarrow> PList []))
           \<and> (\<forall>s w. response = PStr s \<and> jl s = Inr w
                    \<and> (\<forall>xs. w \<noteq> PList xs) \<and> (\<forall>d. w \<noteq> PDict d) \<longrightarrow> v = PList [])
           \<and> ((\<forall>s. response \<noteq> PStr s) \<and> (\<forall>xs. response \<noteq> PList xs)
                 \<and> (\<forall>d. response \<noteq> PDict d) \<longrightarrow> v = PList [])
           \<and> (is_seq v
               \<or> (\<exists>d. (response = PDict d \<or> (\<exists>s. response = PStr s \<and> jl s = Inr (PDict d)))
                      \<and> map_of d ''results'' = Some v))"
proof (cases response)
  case (PStr s)
  show ?thesis
  proof (cases "jl s")
    case (Inl e)
    with decoder have "e = JSONDecodeError" by blast
    with PStr Inl show ?thesis
      by (simp add: safe_parse_response_def is_seq_def)
  next
    case (Inr w)
    with PStr show ?thesis
      by (cases w)
         (auto simp: safe_parse_response_def dispatch_shape_def py_get_def is_seq_def
               split: option.splits)
  qed
qed (auto simp: safe_parse_response_def dispatch_shape_def py_get_def is_seq_def
          split: option.splits)

theorem parse_total_by_shape_witness:
  "\<exists>v. safe_parse_response json_loads_example (PStr ''{}'') = Inr v \<and> v = PList []"
proof -
  have dec: "\<And>s e. json_loads_example s = Inl e \<Longrightarrow> e = JSONDecodeError"
    by (simp add: json_loads_example_def split: if_splits)
  from parse_total_by_shape [of json_loads_example "PStr ''{}''", OF dec]
  show ?thesis
    by (auto simp: json_loads_example_def)
qed

section \<open>Properties of the LLM Enrichment Adapter\<close>

lemma is_structured_content:
  "is_structured a \<Longrightarrow> \<exists>s. py_get a ''full_content'' (PStr []) = PStr s"
  by (auto simp: is_structured_def structured_fields_def field_populated_def py_get_def is_str_def
           split: option.splits pyval.splits)

lemma build_prompt_structured:
  "is_structured a \<Longrightarrow> \<exists>p. build_prompt W a = Inr p"
  using is_structured_content [of a]
  by (auto simp: build_prompt_def py_slice3000_def)




lemma is_structured_example: "is_structured example_article"
  by (simp add: is_structured_def structured_fields_def field_populated_def py_get_def is_str_def
        example_article_def)




text \<open>
  C4 (counterexample). The language model answers \<^verbatim>\<open>{}\<close>. That is valid JSON with none
  of the keys of the schema; enrichment returns it as it is, not the fallback record.
\<close>

theorem enrich_returns_unchecked_json:
  "enrich_article_with_gpt_full (answering_world ''{}'') example_article = Inr (PDict [])
   \<and> \<not> conforms_schema (PDict [])
   \<and> PDict [] \<noteq> PDict (fallback_record example_article)"
  by (simp add: enrich_article_with_gpt_full_def build_prompt_def py_slice3000_def py_get_def
        example_article_def answering_world_def example_world_def json_loads_example_def
        conforms_schema_def schema_keys_def fallback_record_def)

text \<open>
  C4 (amended). Whenever the language model returns text without raising, enrichment
  decodes the text as JSON and returns the decoded value as it is, whatever its shape:
  nothing is checked against the schema. The fallback record is returned when the text
  is not valid JSON.
\<close>

theorem enrich_returns_decoded_text:
  assumes "build_prompt W article = Inr prompt"
      and "llm_invoke W prompt = Inr text"
  shows "enrich_article_with_gpt_full W article =
           Inr (case json_loads W text of
                  Inl e \<Rightarrow> PDict (fallback_record article)
                | Inr v \<Rightarrow> v)"
  using assms by (simp add: enrich_article_with_gpt_full_def split: sum.splits)

theorem enrich_returns_decoded_text_witness:
  "enrich_article_with_gpt_full (answering_world ''not valid json'') example_article =
     Inr (PDict (fallback_record example_article))
   \<and> enrich_article_with_gpt_full (answering_world ''[]'') example_article = Inr (PList [])"
proof -
  obtain p where p: "build_prompt (answering_world ''not valid json'') example_article = Inr p"
    using build_prompt_structured [OF is_structured_example] by blast
  obtain q where q: "build_prompt (answering_world ''[]'') example_article = Inr q"
    using build_prompt_structured [OF is_structured_example] by blast
  have lp: "llm_invoke (answering_world ''not valid json'') p = Inr ''not valid json''"
    by (simp add: answering_world_def)
  have lq: "llm_invoke (answering_world ''[]'') q = Inr ''[]''"
    by (simp add: answering_world_def)
  show ?thesis
    using enrich_returns_decoded_text [OF p lp] enrich_returns_decoded_text [OF q lq]
    by (simp add: answering_world_def example_world_def json_loads_example_def)
qed



section \<open>Properties of the Reference Enricher\<close>


lemma map_of_py_setitem:
  "map_of (py_setitem d k v) k' = (if k' = k then Some v else map_of d k')"
  by (induction d) auto

lemma any_domain_in_str:
  assumes "map_of article ''url'' = Some (PStr u)"
  shows "any_domain_in article domains = Inr (list_ex (\<lambda>d. str_contains d u) domains)"
  using assms by (induction domains) (simp_all add: py_in_def)

lemma collect_refs_str:
  assumes "map_of article ''url'' = Some (PStr u)"
  shows "collect_refs article registry =
           Inr (map fst (filter (\<lambda>entry. list_ex (\<lambda>d. str_contains d u) (snd entry)) registry))"
proof (induction registry)
  case Nil
  then show ?case by simp
next
  case (Cons entry registry)
  obtain org domains where entry: "entry = (org, domains)" by (cases entry)
  show ?case
    using Cons any_domain_in_str [OF assms, of domains] by (simp add: entry)
qed

lemma add_research_references_str:
  assumes "map_of article ''url'' = Some (PStr u)"
  shows "add_research_references article =
           Inr (py_setitem article ''research_references''
                  (PList (map PStr
                     (let hits = map fst (filter (\<lambda>entry. list_ex (\<lambda>d. str_contains d u) (snd entry))
                                            trusted_sources)
                      in if hits \<noteq> [] then hits else [''None'']))))"
  by (simp add: add_research_references_def collect_refs_str [OF assms] Let_def)

text \<open>
  C7 (counterexample). A record without the \<^verbatim>\<open>url\<close> field is not passed through:
  \<^verbatim>\<open>article["url"]\<close> raises \<^verbatim>\<open>KeyError\<close>.
\<close>

theorem reference_enricher_raises_without_url:
  "enrich_articles_with_research_references [[(''title'', PStr ''Flood Risk Update'')]]
     = Inl KeyError"
  by (simp add: enrich_articles_with_research_references_def add_research_references_def
        trusted_sources_def)

text \<open>
  C7 (amended). For every input list of article records that each carry a string
  \<^verbatim>\<open>url\<close>, the Reference Enricher does not raise: it returns the records in input
  order, each unchanged apart from \<^verbatim>\<open>research_references\<close> being set. A list that
  starts with a record without \<^verbatim>\<open>url\<close> makes it raise \<^verbatim>\<open>KeyError\<close>.
\<close>

theorem reference_enricher_on_url_records:
  assumes urls: "\<forall>a\<in>set articles. \<exists>u. map_of a ''url'' = Some (PStr u)"
  shows "(\<exists>rs. enrich_articles_with_research_references articles = Inr rs
            \<and> length rs = length articles
            \<and> (\<forall>i<length articles.
                  (\<exists>refs. rs ! i = py_setitem (articles ! i) ''research_references'' refs)
                  \<and> (\<forall>k. k \<noteq> ''research_references'' \<longrightarrow>
                          map_of (rs ! i) k = map_of (articles ! i) k)))
         \<and> (map_of malformed ''url'' = None \<longrightarrow>
              enrich_articles_with_research_references (malformed # others) = Inl KeyError)"
proof
  have "\<And>a. a \<in> set articles \<Longrightarrow> \<exists>r. add_research_references a = Inr r"
    using urls add_research_references_str by blast
  from map_exn_Inr [of articles add_research_references, OF this]
  obtain rs where rs: "enrich_articles_with_research_references articles = Inr rs"
    "length rs = length articles"
    "\<forall>i<length articles. add_research_references (articles ! i) = Inr (rs ! i)"
    unfolding enrich_articles_with_research_references_def by blast
  have "(\<exists>refs. rs ! i = py_setitem (articles ! i) ''research_references'' refs)
        \<and> (\<forall>k. k \<noteq> ''research_references'' \<longrightarrow> map_of (rs ! i) k = map_of (articles ! i) k)"
    if i: "i < length articles" for i
  proof -
    from urls i obtain u where u: "map_of (articles ! i) ''url'' = Some (PStr u)"
      by (meson nth_mem)
    from rs(3) i add_research_references_str [OF u]
    obtain refs where "rs ! i = py_setitem (articles ! i) ''research_references'' refs"
      by auto
    then show ?thesis
      by (auto simp: map_of_py_setitem)
  qed
  with rs show "\<exists>rs. enrich_articles_with_research_references articles = Inr rs
            \<and> length rs = length articles
            \<and> (\<forall>i<length articles.
                  (\<exists>refs. rs ! i = py_setitem (articles ! i) ''research_references'' refs)
                  \<and> (\<forall>k. k \<noteq> ''research_references'' \<longrightarrow>
                          map_of (rs ! i) k = map_of (articles ! i) k))"
    by blast
next
  show "map_of malformed ''url'' = None \<longrightarrow>
          enrich_articles_with_research_references (malformed # others) = Inl KeyError"
    by (simp add: enrich_articles_with_research_references_def add_research_references_def
          trusted_sources_def)
qed

theorem reference_enricher_on_url_records_witness:
  "\<exists>rs. enrich_articles_with_research_references [example_article] = Inr rs
     \<and> length rs = 1
     \<and> map_of (rs ! 0) ''title'' = Some (PStr ''Flood Risk Update'')"
proof -
  have "\<forall>a\<in>set [example_article]. \<exists>u. map_of a ''url'' = Some (PStr u)"
    by (simp add: example_article_def)
  from reference_enricher_on_url_records [OF this, THEN conjunct1]
  obtain rs where "enrich_articles_with_research_references [example_article] = Inr rs"
    "length rs = length [example_article]"
    "\<forall>k. k \<noteq> ''research_references'' \<longrightarrow> map_of (rs ! 0) k = map_of ([example_article] ! 0) k"
    by auto
  then show ?thesis
    by (auto simp: example_article_def)
qed




section \<open>Properties of the source field\<close>

text \<open>
  C9 (the code at the failing input). The raw result has no explicit source; the network
  location of its URL is \<^verbatim>\<open>blog.www.example.com\<close>, which has no leading \<^verbatim>\<open>www.\<close>. The
  source field comes out as \<^verbatim>\<open>blog.example.com\<close>: \<^verbatim>\<open>replace\<close> removes the \<^verbatim>\<open>www.\<close>
  inside the domain.
\<close>

theorem source_loses_inner_www:
  "netloc_basic ''https://blog.www.example.com/post'' = Inr ''blog.www.example.com''
   \<and> extract_domain_as_source example_world (PStr ''https://blog.www.example.com/post'')
       = Inr ''blog.example.com''
   \<and> resolve_source example_world [(''url'', PStr ''https://blog.www.example.com/post'')]
        (PStr ''https://blog.www.example.com/post'')
       = Inr (PStr ''blog.example.com'')"
proof -
  have n: "netloc_basic ''https://blog.www.example.com/post'' = Inr ''blog.www.example.com''"
    by (simp add: netloc_basic_def is_alpha_def is_scheme_char_def is_digit_def ord_def Let_def)
  have r: "py_replace ''www.'' [] ''blog.www.example.com'' = ''blog.example.com''"
    by simp
  show ?thesis
    by (simp add: n r extract_domain_as_source_def resolve_source_def py_get_def
          example_world_def)
qed

section \<open>Properties of the Article Structurer\<close>

lemma resolve_title_Inr:
  "resolve_title r url = Inr t \<Longrightarrow> truthy t"
  by (auto simp: resolve_title_def Let_def split: if_splits pyval.splits)

lemma truthy_not_None: "truthy v \<Longrightarrow> v \<noteq> PNone"
  by auto

lemma resolve_source_Inr:
  "resolve_source W r url = Inr s \<Longrightarrow> s \<noteq> PNone"
  by (auto simp: resolve_source_def Let_def split: if_splits sum.splits)

lemma extract_best_date_Inr:
  "extract_best_date W url title content = Inr d \<Longrightarrow> is_str url"
  by (auto simp: extract_best_date_def is_str_def split: sum.splits pyval.splits)

lemma scan_texts_strings:
  "\<exists>found. scan_texts [PStr u, PStr t, PStr c] = Inr found"
  by (simp split: option.splits)

lemma extract_best_date_strings:
  "\<exists>d. extract_best_date W (PStr u) (PStr t) (PStr c) = Inr d"
  using scan_texts_strings [of u t c]
  by (auto simp: extract_best_date_def split: option.splits)

lemma structure_result_Inr:
  assumes "structure_result W result = Inr a"
  shows "is_structured a \<and> truthy (py_get a ''title'' PNone)"
proof -
  from assms obtain r where r: "result = PDict r"
    by (cases result) (simp_all add: structure_result_def)
  define url where "url = py_get r ''url'' (PStr [])"
  define fc where "fc = clean_text W (py_get r ''content'' (PStr []))"
  from assms r obtain title where title: "resolve_title r url = Inr title"
    by (auto simp: structure_result_def url_def Let_def split: sum.splits)
  from assms r title obtain source where source: "resolve_source W r url = Inr source"
    by (auto simp: structure_result_def url_def Let_def split: sum.splits)
  from assms r title source obtain date
    where date: "extract_best_date W url title (PStr fc) = Inr date"
    by (auto simp: structure_result_def url_def fc_def Let_def split: sum.splits)
  have a: "a = [(''title'', title), (''url'', url), (''source'', source), (''date'', PStr date),
                (''location'', PStr (extract_location W fc)),
                (''category'', PStr (categorize_article fc)),
                (''summary_input'', PStr (py_join '' '' (take 800 (py_split fc)))),
                (''full_content'', PStr fc)]"
    using assms r title source date
    by (simp add: structure_result_def url_def [symmetric] fc_def [symmetric] Let_def)
  have t: "truthy title" using resolve_title_Inr [OF title] .
  then have t': "title \<noteq> PNone" by auto
  have s: "source \<noteq> PNone" using resolve_source_Inr [OF source] .
  have u: "is_str url" using extract_best_date_Inr [OF date] .
  then have u': "url \<noteq> PNone" by (auto simp: is_str_def)
  show ?thesis
    using t t' s u u'
    by (simp add: a is_structured_def structured_fields_def field_populated_def py_get_def
          is_str_def)
qed

lemma structure_result_ok:
  assumes "result_fields_ok W result"
  shows "\<exists>r u a title. result = PDict r \<and> py_get r ''url'' (PStr []) = PStr u
           \<and> structure_result W result = Inr a
           \<and> map_of a ''title'' = Some (PStr title) \<and> title \<noteq> []
           \<and> PStr title = (if truthy (py_get r ''title'' (PStr [])) then py_get r ''title'' (PStr [])
                            else if basename u \<noteq> [] then PStr (basename u)
                            else PStr ''No Title'')"
proof -
  from assms obtain r where r: "result = PDict r"
    by (cases result) (simp_all add: result_fields_ok_def)
  from assms r obtain u where u: "py_get r ''url'' (PStr []) = PStr u"
    by (auto simp: result_fields_ok_def split: pyval.splits)
  define t where "t = py_get r ''title'' (PStr [])"
  from assms r u have t: "\<not> truthy t \<or> is_str t"
    by (simp add: result_fields_ok_def t_def)
  define title where "title = (if truthy t then t else if basename u \<noteq> [] then PStr (basename u)
                            else PStr ''No Title'')"
  have rt: "resolve_title r (PStr u) = Inr title"
    by (simp add: resolve_title_def title_def t_def Let_def)
  have "\<exists>ts. title = PStr ts \<and> ts \<noteq> []"
    using t by (cases t) (simp_all add: title_def is_str_def)
  then obtain ts where ts: "title = PStr ts" "ts \<noteq> []" by blast
  have "\<exists>source. resolve_source W r (PStr u) = Inr source"
  proof (cases "truthy (py_get r ''source'' (PStr []))")
    case True
    then show ?thesis by (simp add: resolve_source_def)
  next
    case False
    with assms r u have "\<exists>n. urlparse_netloc W u = Inr n"
      by (simp add: result_fields_ok_def split: sum.splits)
    then show ?thesis
      using False by (auto simp: resolve_source_def extract_domain_as_source_def)
  qed
  then obtain source where source: "resolve_source W r (PStr u) = Inr source" by blast
  define fc where "fc = clean_text W (py_get r ''content'' (PStr []))"
  obtain date where date: "extract_best_date W (PStr u) (PStr ts) (PStr fc) = Inr date"
    using extract_best_date_strings by blast
  have "structure_result W result =
          Inr [(''title'', title), (''url'', PStr u), (''source'', source), (''date'', PStr date),
                (''location'', PStr (extract_location W fc)),
                (''category'', PStr (categorize_article fc)),
                (''summary_input'', PStr (py_join '' '' (take 800 (py_split fc)))),
                (''full_content'', PStr fc)]"
    using rt source date
    by (simp add: structure_result_def r u ts fc_def [symmetric] Let_def)
  then show ?thesis
    using r u ts by (auto simp: title_def t_def)
qed

text \<open>
  C2 (counterexample). A raw result with a title and a \<^verbatim>\<open>url\<close> that is \<^verbatim>\<open>null\<close>: the
  wrongly typed field is not absorbed, the structurer raises \<^verbatim>\<open>TypeError\<close> when it
  derives the source from the URL.
\<close>

theorem structure_raises_on_null_url:
  "structure_articles example_world
     (PList [PDict [(''title'', PStr ''Flood Risk Update''), (''url'', PNone)]]) = Inl TypeError"
  by (simp add: structure_articles_def safe_parse_response_def dispatch_shape_def iter_items_def
        structure_result_def resolve_title_def resolve_source_def extract_domain_as_source_def
        py_get_def)

text \<open>
  C2 (amended). Every StructuredArticle that structure emits has title, url, source,
  date, location, category, summary_input and full_content present and not null, and a
  title that is not empty. Structure does not raise, and emits one article per raw
  result, when the response parses to a list of mappings in each of which the URL is
  absent or a string, the title is absent, falsy or a string, and the source is given or
  the network location of the URL can be taken; the title is then a non-empty string:
  the explicit title, else the basename of the URL, else \<^verbatim>\<open>No Title\<close>. Missing fields
  are absorbed by defaults; wrongly typed ones are not.
\<close>

theorem structure_articles_fields:
  "(\<forall>arts. structure_articles W response = Inr arts \<longrightarrow>
       (\<forall>a\<in>set arts. is_structured a \<and> truthy (py_get a ''title'' PNone)))
   \<and> (\<forall>results. safe_parse_response (json_loads W) response = Inr (PList results)
          \<and> (\<forall>r\<in>set results. result_fields_ok W r) \<longrightarrow>
        (\<exists>arts. structure_articles W response = Inr arts \<and> length arts = length results
           \<and> (\<forall>i<length results. \<exists>r u title.
                  results ! i = PDict r \<and> py_get r ''url'' (PStr []) = PStr u
                  \<and> map_of (arts ! i) ''title'' = Some (PStr title) \<and> title \<noteq> []
                  \<and> PStr title =
                      (if truthy (py_get r ''title'' (PStr [])) then py_get r ''title'' (PStr [])
                       else if basename u \<noteq> [] then PStr (basename u)
                       else PStr ''No Title''))))"
proof (intro conjI allI impI)
  fix arts
  assume "structure_articles W response = Inr arts"
  then have "\<exists>results. map_exn (structure_result W) results = Inr arts"
    by (auto simp: structure_articles_def split: sum.splits)
  then obtain results where "map_exn (structure_result W) results = Inr arts" ..
  from map_exn_set [OF this]
  show "\<forall>a\<in>set arts. is_structured a \<and> truthy (py_get a ''title'' PNone)"
    using structure_result_Inr by blast
next
  fix results
  assume "safe_parse_response (json_loads W) response = Inr (PList results)
          \<and> (\<forall>r\<in>set results. result_fields_ok W r)"
  then have parsed: "safe_parse_response (json_loads W) response = Inr (PList results)"
    and ok: "\<And>r. r \<in> set results \<Longrightarrow> result_fields_ok W r"
    by blast+
  have "\<And>r. r \<in> set results \<Longrightarrow> \<exists>a. structure_result W r = Inr a"
    using ok structure_result_ok by blast
  from map_exn_Inr [of results "structure_result W", OF this]
  obtain arts where arts: "map_exn (structure_result W) results = Inr arts"
    "length arts = length results"
    "\<forall>i<length results. structure_result W (results ! i) = Inr (arts ! i)"
    by blast
  have run: "structure_articles W response = Inr arts"
    by (simp add: structure_articles_def parsed iter_items_def arts(1))
  have "\<exists>r u title.
          results ! i = PDict r \<and> py_get r ''url'' (PStr []) = PStr u
          \<and> map_of (arts ! i) ''title'' = Some (PStr title) \<and> title \<noteq> []
          \<and> PStr title =
              (if truthy (py_get r ''title'' (PStr [])) then py_get r ''title'' (PStr [])
               else if basename u \<noteq> [] then PStr (basename u)
               else PStr ''No Title'')"
    if i: "i < length results" for i
  proof -
    have "result_fields_ok W (results ! i)" using ok i by simp
    from structure_result_ok [OF this]
    obtain r u a title where found: "results ! i = PDict r" "py_get r ''url'' (PStr []) = PStr u"
      "structure_result W (results ! i) = Inr a"
      "map_of a ''title'' = Some (PStr title)" "title \<noteq> []"
      "PStr title =
         (if truthy (py_get r ''title'' (PStr [])) then py_get r ''title'' (PStr [])
          else if basename u \<noteq> [] then PStr (basename u)
          else PStr ''No Title'')"
      by blast
    from found(3) arts(3) i have "a = arts ! i" by simp
    with found show ?thesis by blast
  qed
  with run arts(2)
  show "\<exists>arts. structure_articles W response = Inr arts \<and> length arts = length results
           \<and> (\<forall>i<length results. \<exists>r u title.
                  results ! i = PDict r \<and> py_get r ''url'' (PStr []) = PStr u
                  \<and> map_of (arts ! i) ''title'' = Some (PStr title) \<and> title \<noteq> []
                  \<and> PStr title =
                      (if truthy (py_get r ''title'' (PStr [])) then py_get r ''title'' (PStr [])
                       else if basename u \<noteq> [] then PStr (basename u)
                       else PStr ''No Title''))"
    by blast
qed

theorem structure_articles_fields_witness:
  "\<exists>arts. structure_articles example_world example_response = Inr arts \<and> length arts = 1
     \<and> is_structured (arts ! 0)
     \<and> map_of (arts ! 0) ''title'' = Some (PStr ''Flood Risk Update'')"
proof -
  let ?results = "[PDict [(''url'', PStr ''https://swissre.com/report''),
                          (''title'', PStr ''Flood Risk Update''),
                          (''content'', PStr ''A flood in Germany on 2024-05-01 caused insured losses.'')]]"
  have parsed: "safe_parse_response (json_loads example_world) example_response
                  = Inr (PList ?results)"
    by (simp add: safe_parse_response_def dispatch_shape_def py_get_def example_response_def)
  have n: "netloc_basic ''https://swissre.com/report'' = Inr ''swissre.com''"
    by (simp add: netloc_basic_def is_alpha_def is_scheme_char_def is_digit_def ord_def Let_def)
  have ok: "\<forall>r\<in>set ?results. result_fields_ok example_world r"
    by (simp add: result_fields_ok_def py_get_def is_str_def example_world_def n)
  from structure_articles_fields [of example_world example_response] parsed ok
  obtain arts where arts: "structure_articles example_world example_response = Inr arts"
    "length arts = length ?results"
    "\<forall>i<length ?results. \<exists>r u title.
        ?results ! i = PDict r \<and> py_get r ''url'' (PStr []) = PStr u
        \<and> map_of (arts ! i) ''title'' = Some (PStr title) \<and> title \<noteq> []
        \<and> PStr title =
            (if truthy (py_get r ''title'' (PStr [])) then py_get r ''title'' (PStr [])
             else if basename u \<noteq> [] then PStr (basename u)
             else PStr ''No Title'')"
    by blast
  from arts(3) have title: "map_of (arts ! 0) ''title'' = Some (PStr ''Flood Risk Update'')"
    by (auto simp: py_get_def)
  have "arts ! 0 \<in> set arts" using arts(2) by simp
  with structure_articles_fields [of example_world example_response] arts(1)
  have "is_structured (arts ! 0)" by blast
  with arts(1,2) title show ?thesis by simp
qed

section \<open>Properties of the date extractor\<close>

































end
